theory Spec2Isabelle
  imports Main "HOL-Library.Word"
begin

section \<open>clientcomptage: data model\<close>

text \<open>
  The program is one C file, \<^verbatim>\<open>clientcomptage.c\<close>. Everything it does beyond option
  parsing is a call into libc, libpq or the PostgreSQL front-end utilities, so a run is
  modelled as the list of the calls it makes with an effect outside the process (an
  \<open>event\<close> each), in program order, together with the way the run ends.
\<close>

subsection \<open>The enum \<open>actions_t\<close> and the struct \<open>options\<close>\<close>

text \<open>
  \<open>actions_t\<close> is a C enum, that is an integer; the \<open>action\<close> field lives in memory that
  \<open>pg_malloc\<close> hands out without clearing it, so the field can hold any bit pattern and
  not only the five enumerators. It is a 32-bit word and the enumerators are constants.
\<close>

type_synonym actions_t = "32 word"

definition NONE :: actions_t where "NONE = 0"
definition AJOUT :: actions_t where "AJOUT = 1"
definition JOURS :: actions_t where "JOURS = 2"
definition MOIS :: actions_t where "MOIS = 3"
definition SEMAINES :: actions_t where "SEMAINES = 4"

text \<open>
  A \<open>char *\<close> is \<open>NULL\<close>, or points to a string, or points nowhere (what an
  uninitialised pointer may hold): it is then not \<open>NULL\<close>, and reading through it is
  undefined behaviour.
\<close>

datatype char_ptr = Null_ptr | Str string | Wild_ptr

record options =
  script :: char_ptr
  verbose :: bool
  action :: actions_t
  heures :: char_ptr
  dsn :: char_ptr
  major :: int
  minor :: int

subsection \<open>The outside world\<close>

type_synonym pgconn = nat

record pgresult =
  result_status :: nat
  columns :: "string list"
  tuples :: "string list list"

record conn_params =
  pghost :: string
  pgport :: string
  dbname :: string
  pguser :: string

text \<open>
  What the run cannot decide by itself: the \<open>PG_VERSION\<close> macro of the PostgreSQL headers
  the program is compiled against; whether \<open>getopt\<close> stops at the first non-option
  argument (POSIX order: musl, the BSDs) or skips it (glibc);
  the handle \<open>connectDatabase\<close> returns, \<open>None\<close> when the connection fails; what
  \<open>PQexec\<close> returns for a statement, \<open>None\<close> being the \<open>NULL\<close> pointer; and the text of
  \<open>PQerrorMessage\<close>.
\<close>

record env =
  pg_version :: string
  posix_order :: bool
  conn_handle :: "pgconn option"
  exec_result :: "string \<Rightarrow> pgresult option"
  error_message :: string

text \<open>The title, numbers and flags that \<open>fetch_table\<close> assigns in \<open>printQueryOpt\<close>.
  It also sets the format, always \<open>PRINT_ALIGNED\<close>, the three line styles, always
  \<open>UNICODE_LINESTYLE_SINGLE\<close>, the encoding of the environment, and some pointers to
  \<open>NULL\<close>.\<close>

record print_opt =
  title :: string
  translate_header :: bool
  expanded :: nat
  border :: nat
  pager :: nat
  tuples_only :: bool
  start_table :: bool
  stop_table :: bool
  default_footer :: bool
  numericLocale :: bool

datatype event =
    Pqsignal_SIGINT
  | Stdout string
  | Getopt_invalid_option char
  | Getopt_missing_argument char
  | Log_error string
  | Log_info string
  | ConnectDatabase conn_params string "pgconn option"
  | PQexec pgconn string
  | PrintQuery print_opt pgresult
  | PQclear "pgresult option"
  | PQfinish "pgconn option"
  | Pg_free

text \<open>
  A run ends by returning a value, by \<open>exit\<close> with a status, in undefined behaviour (a
  read through a pointer that points nowhere), or killed by a signal that has no handler.
\<close>

datatype 'a outcome = Returns 'a | Exits nat | Undefined_behaviour | Killed_by_SIGINT

type_synonym 'a run = "event list \<times> 'a outcome"

definition EXIT_FAILURE :: nat where "EXIT_FAILURE = 1"

text \<open>Sequencing: the second part runs only when the first returns.\<close>

definition and_then :: "'a run \<Rightarrow> ('a \<Rightarrow> 'b run) \<Rightarrow> 'b run" where
  "and_then r f =
     (case snd r of
        Returns x \<Rightarrow> (fst r @ fst (f x), snd (f x))
      | Exits n \<Rightarrow> (fst r, Exits n)
      | Undefined_behaviour \<Rightarrow> (fst r, Undefined_behaviour)
      | Killed_by_SIGINT \<Rightarrow> (fst r, Killed_by_SIGINT))"

section \<open>Library functions the program calls\<close>

subsection \<open>\<open>get_progname\<close> (libpgport): the file name without its directories\<close>

definition get_progname :: "string \<Rightarrow> string" where
  "get_progname argv0 = rev (takeWhile (\<lambda>c. c \<noteq> CHR ''/'') (rev argv0))"

subsection \<open>\<open>getopt\<close> (libc)\<close>

text \<open>
  \<open>getopt\<close> is not part of the program. It is written here after its POSIX description
  and the way glibc implements it, for an option string that does not start with a
  colon, as the program's does not.

  The state of \<open>getopt\<close> between two calls is the rest of the option cluster it is in
  (\<open>nextchar\<close>) and the arguments from \<open>optind\<close> on. The program never looks at \<open>optind\<close>
  or at the non-option arguments, so the arguments \<open>getopt\<close> has passed are dropped.

  A call returns an option character with \<open>optarg\<close>, or \<open>'?'\<close> after writing a message
  to the standard error (an option character that is not in \<open>optstring\<close>, or an option
  whose argument is missing), or \<open>-1\<close> at the end of the options.
\<close>

datatype getopt_ret =
    Opt char "string option"
  | Invalid char
  | Missing char
  | End

type_synonym getopt_state = "string \<times> string list"

text \<open>The character \<open>getopt\<close> hands to the caller; \<open>None\<close> is \<open>-1\<close>.\<close>

fun ret_char :: "getopt_ret \<Rightarrow> char option" where
  "ret_char (Opt c a) = Some c"
| "ret_char (Invalid c) = Some (CHR ''?'')"
| "ret_char (Missing c) = Some (CHR ''?'')"
| "ret_char End = None"

fun ret_events :: "getopt_ret \<Rightarrow> event list" where
  "ret_events (Invalid c) = [Getopt_invalid_option c]"
| "ret_events (Missing c) = [Getopt_missing_argument c]"
| "ret_events r = []"

text \<open>\<open>takes_arg optstring c\<close>: \<open>None\<close> when \<open>c\<close> is not an option character,
  otherwise whether a colon follows it.\<close>

fun takes_arg :: "string \<Rightarrow> char \<Rightarrow> bool option" where
  "takes_arg [] c = None"
| "takes_arg (x # xs) c =
     (if c = CHR '':'' then None
      else if x = c then Some (case xs of [] \<Rightarrow> False | y # ys \<Rightarrow> y = CHR '':'')
      else takes_arg xs c)"

text \<open>An argument is an option word when it starts with \<open>-\<close> and has a second
  character.\<close>

fun is_option_word :: "string \<Rightarrow> bool" where
  "is_option_word (c # d # cs) = (c = CHR ''-'')"
| "is_option_word w = False"

text \<open>The next option cluster: \<open>--\<close> ends the options; a non-option argument ends them
  as well in POSIX order, and is skipped otherwise.\<close>

fun next_word :: "bool \<Rightarrow> string list \<Rightarrow> getopt_state option" where
  "next_word posix [] = None"
| "next_word posix (w # ws) =
     (if w = ''--'' then None
      else if is_option_word w then Some (tl w, ws)
      else if posix then None
      else next_word posix ws)"

fun getopt :: "bool \<Rightarrow> string \<Rightarrow> getopt_state \<Rightarrow> getopt_ret \<times> getopt_state" where
  "getopt posix optstring (nextchar, ws) =
     (case (if nextchar = [] then next_word posix ws else Some (nextchar, ws)) of
        None \<Rightarrow> (End, ([], ws))
      | Some ([], ws') \<Rightarrow> (End, ([], ws'))
      | Some (c # cs, ws') \<Rightarrow>
          (case takes_arg optstring c of
             None \<Rightarrow> (Invalid c, (cs, ws'))
           | Some False \<Rightarrow> (Opt c None, (cs, ws'))
           | Some True \<Rightarrow>
               (if cs \<noteq> [] then (Opt c (Some cs), ([], ws'))
                else (case ws' of
                        [] \<Rightarrow> (Missing c, ([], []))
                      | a # ws'' \<Rightarrow> (Opt c (Some a), ([], ws''))))))"

text \<open>What is left to scan; every call that does not return \<open>-1\<close> makes it smaller.\<close>

fun pending :: "getopt_state \<Rightarrow> nat" where
  "pending (nextchar, ws) = length nextchar + sum_list (map (\<lambda>w. Suc (length w)) ws)"

lemma next_word_pending:
  "next_word posix ws = Some (cs, ws') \<Longrightarrow> pending (cs, ws') < pending ([], ws)"
proof (induction ws)
  case Nil
  then show ?case by simp
next
  case (Cons w ws)
  then show ?case
    by (cases w) (auto split: if_splits)
qed

lemma getopt_pending:
  "getopt posix optstring st = (r, st') \<Longrightarrow> r \<noteq> End \<Longrightarrow> pending st' < pending st"
proof (cases st)
  case (Pair nextchar ws)
  assume g: "getopt posix optstring st = (r, st')" and r: "r \<noteq> End"
  show ?thesis
  proof (cases "nextchar = []")
    case True
    show ?thesis
    proof (cases "next_word posix ws")
      case None
      with g r Pair True show ?thesis by simp
    next
      case (Some p)
      obtain cs ws' where p: "p = (cs, ws')" by (cases p)
      from Some p have "next_word posix ws = Some (cs, ws')" by simp
      then have "pending (cs, ws') < pending ([], ws)"
        by (rule next_word_pending)
      with g r Pair True Some p show ?thesis
        by (auto split: list.splits option.splits bool.splits if_splits)
    qed
  next
    case False
    with g r Pair show ?thesis
      by (auto split: list.splits option.splits bool.splits if_splits)
  qed
qed

lemma getopt_pending_char:
  "(r, st') = getopt posix optstring st \<Longrightarrow> ret_char r = Some c \<Longrightarrow> pending st' < pending st"
  by (rule getopt_pending [of posix optstring st r st']) auto

declare getopt.simps [simp del]
declare pending.simps [simp del]

text \<open>All the results of \<open>getopt\<close> up to the end of the options, whatever the caller does
  with them.\<close>

function getopt_all :: "bool \<Rightarrow> string \<Rightarrow> getopt_state \<Rightarrow> getopt_ret list" where
  "getopt_all posix optstring st =
     (case getopt posix optstring st of
        (r, st') \<Rightarrow> if r = End then [] else r # getopt_all posix optstring st')"
  by pat_completeness auto
termination
  by (relation "measure (\<lambda>(posix, optstring, st). pending st)")
     (auto dest: getopt_pending [OF sym])

fun ret_optarg :: "getopt_ret \<Rightarrow> string option" where
  "ret_optarg (Opt c a) = a"
| "ret_optarg r = None"

subsection \<open>\<open>connectDatabase\<close> (fe_utils): it ends the process when it cannot connect\<close>

definition connectDatabase :: "env \<Rightarrow> conn_params \<Rightarrow> string \<Rightarrow> pgconn run" where
  "connectDatabase w cparams progname =
     (case conn_handle w of
        None \<Rightarrow> ([ConnectDatabase cparams progname None], Exits 1)
      | Some h \<Rightarrow> ([ConnectDatabase cparams progname (Some h)], Returns h))"

section \<open>The program\<close>

subsection \<open>\<open>help\<close>\<close>

definition e_acute :: string where
  "e_acute = [CHR 0xC3, CHR 0xA9]"

text \<open>The C function \<open>help\<close> is \<open>print_help\<close> here, \<open>help\<close> being a reserved
  word.\<close>

definition help_text :: "string \<Rightarrow> string" where
  "help_text progname =
     progname @ '' does some stuff :)\<newline>\<newline>'' @
     ''Usage:\<newline>'' @
     ''  '' @ progname @ '' [OPTIONS]\<newline>'' @
     ''\<newline>General options:\<newline>'' @
     ''  -a            ajout d'heures r'' @ e_acute @ ''alis'' @ e_acute @ ''es\<newline>'' @
     ''  -j|--jour     d'' @ e_acute @ ''compte par jour\<newline>'' @
     ''  -m|--mois     d'' @ e_acute @ ''compte par mois\<newline>'' @
     ''  -s|--semaines d'' @ e_acute @ ''compte par semaine\<newline>'' @
     ''  -v            verbose\<newline>'' @
     ''  -?|--help     show this help, then exit\<newline>'' @
     ''  -V|--version  output version information, then exit\<newline>'' @
     ''\<newline>'' @
     ''Report bugs to <guillaume@lelarge.info>.\<newline>''"

definition print_help :: "string \<Rightarrow> unit run" where
  "print_help progname = ([Stdout (help_text progname)], Returns ())"

subsection \<open>\<open>pg_strdup\<close>\<close>

text \<open>Running out of memory is not modelled.\<close>

definition pg_strdup :: "string option \<Rightarrow> string run" where
  "pg_strdup inp =
     (case inp of
        None \<Rightarrow>
          ([Log_error ''cannot duplicate null pointer (internal error)\<newline>''],
           Exits EXIT_FAILURE)
      | Some s \<Rightarrow> ([], Returns s))"

subsection \<open>\<open>get_opts\<close>\<close>

definition CLIENTCOMPTAGE_VERSION :: string where
  "CLIENTCOMPTAGE_VERSION = ''0.0.1''"

definition version_line :: "env \<Rightarrow> string" where
  "version_line w =
     ''pgreport '' @ CLIENTCOMPTAGE_VERSION @ '' (compiled with PostgreSQL '' @
     pg_version w @ '')'' @ ''\<newline>''"

definition usage_hint :: "string \<Rightarrow> string" where
  "usage_hint progname =
     ''Try '' @ [CHR 0x22] @ progname @ '' --help'' @ [CHR 0x22] @
     '' for more information.\<newline>''"

text \<open>The \<open>switch\<close> in the loop, on the character \<open>c\<close> that \<open>getopt\<close> returned.\<close>

definition get_opts_switch :: "string \<Rightarrow> char \<Rightarrow> string option \<Rightarrow> options \<Rightarrow> options run" where
  "get_opts_switch progname c optarg opts =
     (if c = CHR ''a'' then
        and_then (pg_strdup optarg)
          (\<lambda>h. ([], Returns (opts\<lparr>action := AJOUT, heures := Str h\<rparr>)))
      else if c = CHR ''j'' then ([], Returns (opts\<lparr>action := JOURS\<rparr>))
      else if c = CHR ''m'' then ([], Returns (opts\<lparr>action := MOIS\<rparr>))
      else if c = CHR ''s'' then ([], Returns (opts\<lparr>action := SEMAINES\<rparr>))
      else ([Log_error (usage_hint progname)], Exits EXIT_FAILURE))"

text \<open>The loop \<^verbatim>\<open>while ((c = getopt(argc, argv, "a:jmsv")) != -1)\<close>.\<close>

function get_opts_loop :: "bool \<Rightarrow> string \<Rightarrow> getopt_state \<Rightarrow> options \<Rightarrow> options run" where
  "get_opts_loop posix progname st opts =
     (case getopt posix ''a:jmsv'' st of
        (r, st') \<Rightarrow>
          (case ret_char r of
             None \<Rightarrow> ([], Returns opts)
           | Some c \<Rightarrow>
               (case get_opts_switch progname c (ret_optarg r) opts of
                  (t, Returns opts') \<Rightarrow>
                    (case get_opts_loop posix progname st' opts' of
                       (t', res) \<Rightarrow> (ret_events r @ t @ t', res))
                | (t, Exits n) \<Rightarrow> (ret_events r @ t, Exits n)
                | (t, Undefined_behaviour) \<Rightarrow> (ret_events r @ t, Undefined_behaviour)
                | (t, Killed_by_SIGINT) \<Rightarrow> (ret_events r @ t, Killed_by_SIGINT))))"
  by pat_completeness auto
termination
  by (relation "measure (\<lambda>(posix, progname, st, opts). pending st)")
     (auto dest: getopt_pending_char)

definition get_opts :: "env \<Rightarrow> string list \<Rightarrow> options \<Rightarrow> options run" where
  "get_opts w argv mem =
     (case argv of
        [] \<Rightarrow> ([], Undefined_behaviour)
      | argv0 # args \<Rightarrow>
          (let progname = get_progname argv0;
               opts = mem\<lparr>script := Null_ptr, verbose := False\<rparr>
           in case args of
                [] \<Rightarrow> get_opts_loop (posix_order w) progname ([], args) opts
              | a1 # rest \<Rightarrow>
                  if a1 = ''--help'' \<or> a1 = ''-?''
                  then and_then (print_help progname) (\<lambda>u. ([], Exits 0))
                  else if a1 = ''--version'' \<or> a1 = ''-V''
                  then ([Stdout (version_line w)], Exits 0)
                  else get_opts_loop (posix_order w) progname ([], args) opts))"

subsection \<open>\<open>execute\<close>\<close>

definition execute :: "env \<Rightarrow> options \<Rightarrow> pgconn \<Rightarrow> string \<Rightarrow> unit run" where
  "execute w opts conn query =
     (if script opts \<noteq> Null_ptr
      then ([Stdout (query @ '';\<newline>'')], Returns ())
      else (case exec_result w query of
              None \<Rightarrow>
                ([PQexec conn query,
                  Log_error (''query failed: '' @ error_message w),
                  Log_info (''query was: '' @ query),
                  PQclear None,
                  PQfinish (Some conn)],
                 Exits EXIT_FAILURE)
            | Some results \<Rightarrow>
                ([PQexec conn query, PQclear (Some results)], Returns ())))"

subsection \<open>\<open>fetch_table\<close>\<close>

definition fetch_table_myopt :: "string \<Rightarrow> print_opt" where
  "fetch_table_myopt label =
     \<lparr>title = label, translate_header = False, expanded = 0, border = 2, pager = 0,
      tuples_only = False, start_table = True, stop_table = True, default_footer = False,
      numericLocale = False\<rparr>"

definition fetch_table :: "env \<Rightarrow> options \<Rightarrow> pgconn \<Rightarrow> string \<Rightarrow> string \<Rightarrow> unit run" where
  "fetch_table w opts conn label query =
     (if script opts \<noteq> Null_ptr
      then ([Stdout ([CHR 0x5C] @ ''echo '' @ label @ ''\<newline>''),
             Stdout (query @ '';\<newline>'')],
            Returns ())
      else (let myopt = fetch_table_myopt label
            in case exec_result w query of
                 None \<Rightarrow>
                   ([PQexec conn query,
                     Log_error (''query failed: '' @ error_message w),
                     Log_info (''query was: '' @ query),
                     PQclear None,
                     PQfinish (Some conn)],
                    Exits EXIT_FAILURE)
               | Some res \<Rightarrow>
                   if result_status res > 2
                   then ([PQexec conn query,
                          Log_error (''query failed: '' @ error_message w),
                          Log_info (''query was: '' @ query),
                          PQclear (Some res),
                          PQfinish (Some conn)],
                         Exits EXIT_FAILURE)
                   else ([PQexec conn query, PrintQuery myopt res, PQclear (Some res)],
                         Returns ())))"

subsection \<open>\<open>quit_properly\<close>, the handler of \<open>SIGINT\<close>\<close>

definition quit_properly :: "pgconn option \<Rightarrow> nat run" where
  "quit_properly conn = ([PQfinish conn], Exits EXIT_FAILURE)"

subsection \<open>\<open>main\<close>\<close>

definition CLIENTCOMPTAGE_DEFAULT_STRING_SIZE :: nat where
  "CLIENTCOMPTAGE_DEFAULT_STRING_SIZE = 2048"

definition cparams :: conn_params where
  "cparams = \<lparr>pghost = ''localhost'', pgport = ''5414'', dbname = ''dalibo'',
     pguser = ''postgres''\<rparr>"

text \<open>\<open>snprintf\<close> into \<open>sql\<close>: at most \<open>sizeof(sql) - 1\<close> characters are kept.\<close>

definition insert_sql :: "string \<Rightarrow> string" where
  "insert_sql h =
     take (CLIENTCOMPTAGE_DEFAULT_STRING_SIZE - 1)
       (''INSERT INTO public.comptage (deb,fin) VALUES ('' @ h @ '')'')"

text \<open>The \<open>switch\<close> on \<open>opts->action\<close>.\<close>

definition main_switch :: "env \<Rightarrow> options \<Rightarrow> pgconn \<Rightarrow> unit run" where
  "main_switch w opts conn =
     (if action opts = AJOUT then
        (case heures opts of
           Str h \<Rightarrow> execute w opts conn (insert_sql h)
         | Null_ptr \<Rightarrow> ([], Undefined_behaviour)
         | Wild_ptr \<Rightarrow> ([], Undefined_behaviour))
      else if action opts = JOURS then
        fetch_table w opts conn ''Jours'' ''SELECT * FROM public.jours_v''
      else if action opts = MOIS then
        fetch_table w opts conn ''Mois'' ''SELECT * FROM public.mois''
      else if action opts = SEMAINES then
        fetch_table w opts conn ''Semaines'' ''SELECT * FROM public.semaines''
      else ([Log_error ''No action defined''], Returns ()))"

text \<open>\<open>main\<close> from the connection parameters on, once the options are parsed.\<close>

definition main_connected :: "env \<Rightarrow> string \<Rightarrow> options \<Rightarrow> nat run" where
  "main_connected w progname opts =
     and_then (connectDatabase w cparams progname) (\<lambda>conn.
     and_then (main_switch w opts conn) (\<lambda>u.
       ([PQfinish (Some conn), Pg_free], Returns 0)))"

text \<open>\<open>mem\<close> is what the memory \<open>pg_malloc\<close> returns for \<open>opts\<close> happens to hold.
  An empty \<open>argv\<close> makes \<open>argv[0]\<close> the null pointer, which \<open>pg_logging_init\<close> reads.\<close>

definition main :: "env \<Rightarrow> options \<Rightarrow> string list \<Rightarrow> nat run" where
  "main w mem argv =
     (case argv of
        [] \<Rightarrow> ([Pqsignal_SIGINT], Undefined_behaviour)
      | argv0 # args \<Rightarrow>
          and_then ([Pqsignal_SIGINT], Returns ()) (\<lambda>u.
          and_then (get_opts w argv mem) (\<lambda>opts.
            main_connected w (get_progname argv0) opts)))"

subsection \<open>An interrupt during the run\<close>

text \<open>
  The global \<open>conn\<close> is \<open>NULL\<close> until \<open>connectDatabase\<close> returns a handle, and nothing
  assigns it afterwards. \<open>SIGINT\<close> delivered once the first \<open>k\<close> events of a run have
  happened, and before the process is gone, runs \<open>quit_properly\<close> if \<open>pqsignal\<close> has
  installed it, and kills the process otherwise.
\<close>

fun conn_of_event :: "event \<Rightarrow> pgconn option \<Rightarrow> pgconn option" where
  "conn_of_event (ConnectDatabase p n (Some h)) c = Some h"
| "conn_of_event e c = c"

definition conn_after :: "event list \<Rightarrow> pgconn option" where
  "conn_after es = fold conn_of_event es None"

definition sigint_after :: "nat \<Rightarrow> nat run \<Rightarrow> nat run" where
  "sigint_after k r =
     (if length (fst r) < k then r
      else if Pqsignal_SIGINT \<in> set (take k (fst r))
      then and_then (take k (fst r), Returns ())
             (\<lambda>u. quit_properly (conn_after (take k (fst r))))
      else (take k (fst r), Killed_by_SIGINT))"

section \<open>Vocabulary of the properties\<close>

subsection \<open>Kinds of events and of options\<close>

fun is_connect :: "event \<Rightarrow> bool" where
  "is_connect (ConnectDatabase p n h) = True"
| "is_connect e = False"

fun is_stdout :: "event \<Rightarrow> bool" where
  "is_stdout (Stdout s) = True"
| "is_stdout e = False"

text \<open>The results of \<open>getopt\<close> for which the \<open>switch\<close> of \<open>get_opts\<close> has a case.\<close>

fun is_action_opt :: "getopt_ret \<Rightarrow> bool" where
  "is_action_opt (Opt c a) =
     (c = CHR ''a'' \<or> c = CHR ''j'' \<or> c = CHR ''m'' \<or> c = CHR ''s'')"
| "is_action_opt r = False"

text \<open>The options select an action that \<open>main\<close> can carry out.\<close>

fun is_Str :: "char_ptr \<Rightarrow> bool" where
  "is_Str (Str h) = True"
| "is_Str p = False"

definition selected :: "options \<Rightarrow> bool" where
  "selected opts =
     ((action opts = AJOUT \<and> is_Str (heures opts)) \<or> action opts = JOURS \<or>
      action opts = MOIS \<or> action opts = SEMAINES)"

text \<open>The statement of the action the options select is among the calls of \<open>PQexec\<close>
  on the connection \<open>h\<close> in the events \<open>es\<close>.\<close>

definition submitted :: "pgconn \<Rightarrow> options \<Rightarrow> event list \<Rightarrow> bool" where
  "submitted h opts es =
     ((action opts = AJOUT \<and>
         (case heures opts of
            Str p \<Rightarrow> PQexec h (insert_sql p) \<in> set es
          | Null_ptr \<Rightarrow> False
          | Wild_ptr \<Rightarrow> False)) \<or>
      (action opts = JOURS \<and> PQexec h ''SELECT * FROM public.jours_v'' \<in> set es) \<or>
      (action opts = MOIS \<and> PQexec h ''SELECT * FROM public.mois'' \<in> set es) \<or>
      (action opts = SEMAINES \<and> PQexec h ''SELECT * FROM public.semaines'' \<in> set es))"

subsection \<open>Memory and a world to run the program in\<close>

text \<open>\<open>garbage\<close> is uninitialised memory; \<open>world res\<close> accepts the connection with
  handle 7 and answers every statement with \<open>res\<close>.\<close>

definition garbage :: options where
  "garbage = \<lparr>script = Wild_ptr, verbose = True, action = 9, heures = Wild_ptr,
     dsn = Wild_ptr, major = 3, minor = 4\<rparr>"

definition tuples_ok :: pgresult where
  "tuples_ok = \<lparr>result_status = 2, columns = [''jour'', ''duree''],
     tuples = [[''2022-01-01'', ''04:00:00'']]\<rparr>"

definition fatal_error :: pgresult where
  "fatal_error = \<lparr>result_status = 7, columns = [], tuples = []\<rparr>"

definition world :: "pgresult option \<Rightarrow> env" where
  "world res = \<lparr>pg_version = ''16.1'', posix_order = False, conn_handle = Some 7,
     exec_result = (\<lambda>q. res), error_message = ''ERROR:  syntax error''\<rparr>"


section \<open>Properties\<close>

subsection \<open>The option loop\<close>

declare get_opts_loop.simps [simp del]
declare getopt_all.simps [simp del]

lemma enumerators_distinct:
  "AJOUT \<noteq> JOURS" "AJOUT \<noteq> MOIS" "AJOUT \<noteq> SEMAINES" "JOURS \<noteq> MOIS"
  "JOURS \<noteq> SEMAINES" "MOIS \<noteq> SEMAINES" "NONE \<noteq> AJOUT" "NONE \<noteq> JOURS"
  "NONE \<noteq> MOIS" "NONE \<noteq> SEMAINES"
  by (simp_all add: NONE_def AJOUT_def JOURS_def MOIS_def SEMAINES_def)

lemma getopt_a_optarg:
  "getopt posix ''a:jmsv'' st = (Opt (CHR ''a'') a, st') \<Longrightarrow> \<exists>h. a = Some h"
  by (cases st)
     (auto simp: getopt.simps
        split: if_splits option.splits list.splits bool.splits prod.splits)

lemma get_opts_loop_unfold:
  "get_opts_loop posix p st opts =
     (case getopt posix ''a:jmsv'' st of
        (End, st') \<Rightarrow> ([], Returns opts)
      | (Invalid c, st') \<Rightarrow>
          ([Getopt_invalid_option c, Log_error (usage_hint p)], Exits EXIT_FAILURE)
      | (Missing c, st') \<Rightarrow>
          ([Getopt_missing_argument c, Log_error (usage_hint p)], Exits EXIT_FAILURE)
      | (Opt c a, st') \<Rightarrow>
          if c = CHR ''a'' then
            (case a of
               Some h \<Rightarrow> get_opts_loop posix p st' (opts\<lparr>action := AJOUT, heures := Str h\<rparr>)
             | None \<Rightarrow>
                 ([Log_error ''cannot duplicate null pointer (internal error)\<newline>''],
                  Exits EXIT_FAILURE))
          else if c = CHR ''j'' then get_opts_loop posix p st' (opts\<lparr>action := JOURS\<rparr>)
          else if c = CHR ''m'' then get_opts_loop posix p st' (opts\<lparr>action := MOIS\<rparr>)
          else if c = CHR ''s'' then get_opts_loop posix p st' (opts\<lparr>action := SEMAINES\<rparr>)
          else ([Log_error (usage_hint p)], Exits EXIT_FAILURE))"
  by (subst get_opts_loop.simps)
     (simp add: get_opts_switch_def and_then_def pg_strdup_def
        split: prod.splits getopt_ret.splits option.splits)

lemma getopt_all_unfold:
  "getopt_all posix optstring st =
     (case getopt posix optstring st of
        (End, st') \<Rightarrow> []
      | (r, st') \<Rightarrow> r # getopt_all posix optstring st')"
  by (subst getopt_all.simps) (simp split: prod.splits getopt_ret.splits)

text \<open>An option with a case in the \<open>switch\<close> changes \<open>action\<close> and \<open>heures\<close> only,
  leaves the options selecting an action, and the loop goes on.\<close>

lemma get_opts_loop_action:
  assumes "getopt posix ''a:jmsv'' st = (Opt c a, st')" and "is_action_opt (Opt c a)"
  shows "\<exists>opts1. get_opts_switch p c a opts = ([], Returns opts1) \<and>
           script opts1 = script opts \<and> verbose opts1 = verbose opts \<and> selected opts1 \<and>
           get_opts_loop posix p st opts = get_opts_loop posix p st' opts1"
proof (cases "c = CHR ''a''")
  case True
  with assms(1) obtain h where "a = Some h"
    using getopt_a_optarg by blast
  with True assms(1) show ?thesis
    by (simp add: get_opts_loop_unfold [of posix p st] get_opts_switch_def and_then_def
          pg_strdup_def selected_def)
next
  case False
  with assms show ?thesis
    by (auto simp: get_opts_loop_unfold [of posix p st] get_opts_switch_def selected_def)
qed

text \<open>
  The loop ends in one of two ways. Either every result of \<open>getopt\<close> has a case in the
  \<open>switch\<close>: then the loop returns, has written nothing, has left \<open>script\<close> and \<open>verbose\<close>
  alone, and the options select an action unless there was no option at all. Or some
  result has none: then the process exits with \<open>EXIT_FAILURE\<close>, the hint being the last
  thing written, and nothing has connected to the database.
\<close>

lemma get_opts_loop_shape:
  "(\<exists>opts'. get_opts_loop posix p st opts = ([], Returns opts') \<and>
      script opts' = script opts \<and> verbose opts' = verbose opts \<and>
      (selected opts' \<or> (getopt_all posix ''a:jmsv'' st = [] \<and> opts' = opts)) \<and>
      list_all is_action_opt (getopt_all posix ''a:jmsv'' st)) \<or>
   (\<exists>t. get_opts_loop posix p st opts = (t @ [Log_error (usage_hint p)], Exits EXIT_FAILURE) \<and>
      list_all (\<lambda>e. \<not> is_connect e) t \<and>
      \<not> list_all is_action_opt (getopt_all posix ''a:jmsv'' st))"
proof (induction posix p st opts rule: get_opts_loop.induct)
  case (1 posix p st opts)
  obtain r st' where g: "getopt posix ''a:jmsv'' st = (r, st')"
    by (cases "getopt posix ''a:jmsv'' st")
  show ?case
  proof (cases "is_action_opt r")
    case True
    then obtain c a where r: "r = Opt c a"
      by (cases r) auto
    from get_opts_loop_action [OF g [unfolded r] True [unfolded r], of p opts]
    obtain opts1 where sw: "get_opts_switch p c a opts = ([], Returns opts1)"
      and keep: "script opts1 = script opts" "verbose opts1 = verbose opts"
      and sel: "selected opts1"
      and loop: "get_opts_loop posix p st opts = get_opts_loop posix p st' opts1"
      by blast
    have all: "list_all is_action_opt (getopt_all posix ''a:jmsv'' st) =
        list_all is_action_opt (getopt_all posix ''a:jmsv'' st')"
      using g r True by (simp add: getopt_all_unfold [of posix _ st])
    from "1.IH" [OF g [symmetric], of c "[]" "Returns opts1" opts1] sw r sel
    show ?thesis
      unfolding loop all keep [symmetric] by auto
  next
    case False
    then show ?thesis
      using g
      by (cases r)
         (auto simp: get_opts_loop_unfold [of posix p st] getopt_all_unfold [of posix _ st])
  qed
qed

subsection \<open>\<open>main\<close>, step by step\<close>

lemma main_unfold:
  "main w mem (argv0 # args) =
     (case get_opts w (argv0 # args) mem of
        (t, Returns opts) \<Rightarrow>
          (Pqsignal_SIGINT # t @ fst (main_connected w (get_progname argv0) opts),
           snd (main_connected w (get_progname argv0) opts))
      | (t, Exits n) \<Rightarrow> (Pqsignal_SIGINT # t, Exits n)
      | (t, Undefined_behaviour) \<Rightarrow> (Pqsignal_SIGINT # t, Undefined_behaviour)
      | (t, Killed_by_SIGINT) \<Rightarrow> (Pqsignal_SIGINT # t, Killed_by_SIGINT))"
  by (simp add: main_def and_then_def split: prod.splits outcome.splits)

lemma get_opts_not_first:
  assumes "a1 \<noteq> ''--help''" "a1 \<noteq> ''-?''" "a1 \<noteq> ''--version''" "a1 \<noteq> ''-V''"
  shows "get_opts w (argv0 # a1 # rest) mem =
           get_opts_loop (posix_order w) (get_progname argv0) ([], a1 # rest)
             (mem\<lparr>script := Null_ptr, verbose := False\<rparr>)"
  using assms by (simp add: get_opts_def)

text \<open>When \<open>get_opts\<close> returns, it has written nothing and \<open>script\<close> is \<open>NULL\<close>.\<close>

lemma get_opts_returns:
  assumes "get_opts w (argv0 # args) mem = (t, Returns opts)"
  shows "t = [] \<and> script opts = Null_ptr \<and> verbose opts = False \<and>
         (selected opts \<or>
          (getopt_all (posix_order w) ''a:jmsv'' ([], args) = [] \<and>
           opts = mem\<lparr>script := Null_ptr, verbose := False\<rparr>)) \<and>
         list_all is_action_opt (getopt_all (posix_order w) ''a:jmsv'' ([], args))"
proof -
  have loop: "get_opts_loop (posix_order w) (get_progname argv0) ([], args)
      (mem\<lparr>script := Null_ptr, verbose := False\<rparr>) = (t, Returns opts)"
    using assms
    by (cases args)
       (auto simp: get_opts_def Let_def print_help_def and_then_def split: if_splits)
  from get_opts_loop_shape [of "posix_order w" "get_progname argv0" "([], args)"
      "mem\<lparr>script := Null_ptr, verbose := False\<rparr>"] loop
  show ?thesis by auto
qed

lemma next_word_None_first:
  "next_word posix (a1 # rest) = None \<Longrightarrow>
     a1 \<noteq> ''--help'' \<and> a1 \<noteq> ''-?'' \<and> a1 \<noteq> ''--version'' \<and> a1 \<noteq> ''-V''"
  by (auto split: if_splits)

lemma get_opts_no_option:
  assumes "next_word (posix_order w) args = None"
  shows "get_opts w (argv0 # args) mem =
           ([], Returns (mem\<lparr>script := Null_ptr, verbose := False\<rparr>))"
proof -
  have loop: "get_opts_loop (posix_order w) (get_progname argv0) ([], args)
      (mem\<lparr>script := Null_ptr, verbose := False\<rparr>) =
        ([], Returns (mem\<lparr>script := Null_ptr, verbose := False\<rparr>))"
    using assms by (simp add: get_opts_loop_unfold [of _ _ "([], args)"] getopt.simps)
  show ?thesis
  proof (cases args)
    case Nil
    with loop show ?thesis by (simp add: get_opts_def)
  next
    case (Cons a1 rest)
    with assms next_word_None_first [of "posix_order w" a1 rest] loop show ?thesis
      by (simp add: get_opts_not_first)
  qed
qed

text \<open>With \<open>script\<close> at \<open>NULL\<close>, nothing is written by \<open>printf\<close>, and the statement of
  a selected action goes to \<open>PQexec\<close>.\<close>

lemma main_connected_no_stdout:
  "script opts = Null_ptr \<Longrightarrow>
     list_all (\<lambda>e. \<not> is_stdout e) (fst (main_connected w p opts))"
  by (simp add: main_connected_def connectDatabase_def and_then_def main_switch_def
        execute_def fetch_table_def
        split: option.splits char_ptr.splits)

lemma execute_submits:
  "script opts = Null_ptr \<Longrightarrow> PQexec h q \<in> set (fst (execute w opts h q))"
  by (simp add: execute_def split: option.splits)

lemma fetch_table_submits:
  "script opts = Null_ptr \<Longrightarrow> PQexec h q \<in> set (fst (fetch_table w opts h label q))"
  by (simp add: fetch_table_def split: option.splits)

lemma main_connected_switch:
  "conn_handle w = Some h \<Longrightarrow>
     set (fst (main_switch w opts h)) \<subseteq> set (fst (main_connected w p opts))"
  by (auto simp: main_connected_def connectDatabase_def and_then_def split: outcome.splits)

lemma main_connected_submits:
  assumes "script opts = Null_ptr" and "conn_handle w = Some h" and "selected opts"
  shows "submitted h opts (fst (main_connected w pn opts))"
proof -
  note sub = main_connected_switch [OF assms(2), of opts pn, THEN subsetD]
  from assms(3) consider p where "action opts = AJOUT" "heures opts = Str p"
    | "action opts = JOURS" | "action opts = MOIS" | "action opts = SEMAINES"
    by (auto simp: selected_def elim: is_Str.elims)
  then show ?thesis
  proof cases
    case 1
    have "PQexec h (insert_sql p) \<in> set (fst (main_switch w opts h))"
      using 1 execute_submits [OF assms(1)] by (simp add: main_switch_def)
    with 1 sub show ?thesis by (simp add: submitted_def)
  next
    case 2
    have "PQexec h ''SELECT * FROM public.jours_v'' \<in> set (fst (main_switch w opts h))"
      using 2 fetch_table_submits [OF assms(1)] enumerators_distinct [symmetric]
      by (simp add: main_switch_def)
    with 2 sub show ?thesis by (simp add: submitted_def)
  next
    case 3
    have "PQexec h ''SELECT * FROM public.mois'' \<in> set (fst (main_switch w opts h))"
      using 3 fetch_table_submits [OF assms(1)] enumerators_distinct [symmetric]
      by (simp add: main_switch_def)
    with 3 sub show ?thesis by (simp add: submitted_def)
  next
    case 4
    have "PQexec h ''SELECT * FROM public.semaines'' \<in> set (fst (main_switch w opts h))"
      using 4 fetch_table_submits [OF assms(1)] enumerators_distinct [symmetric]
      by (simp add: main_switch_def)
    with 4 sub show ?thesis by (simp add: submitted_def)
  qed
qed

subsection \<open>C1: report actions in script mode\<close>

text \<open>Script mode lives in \<open>fetch_table\<close> and \<open>execute\<close>, which read the global
  \<open>opts\<close>. No argument list sets \<open>script\<close> (C9 below), and every run of \<open>main\<close> whose
  option parsing returns calls \<open>connectDatabase\<close> first, so the property is one of the
  function that carries out a report, not of a run of \<open>main\<close>.\<close>

lemma main_connects_before_dispatch:
  assumes "get_opts w (argv0 # args) mem = (t, Returns opts)"
  shows "take 2 (fst (main w mem (argv0 # args))) =
           [Pqsignal_SIGINT, ConnectDatabase cparams (get_progname argv0) (conn_handle w)]"
proof -
  from get_opts_returns [OF assms] have "t = []" by simp
  with assms show ?thesis
    by (cases "conn_handle w")
       (simp_all add: main_unfold main_connected_def connectDatabase_def and_then_def)
qed



subsection \<open>C2: a failing INSERT\<close>

text \<open>\<open>execute\<close> tells failure from success by the pointer \<open>PQexec\<close> returns alone: any
  result is a success, and only \<open>NULL\<close> is a failure.\<close>

lemma insert_any_result_is_success:
  "main (w\<lparr>conn_handle := Some h, exec_result := (\<lambda>q. Some res)\<rparr>) mem
       [argv0, ''-a'', payload] =
     ([Pqsignal_SIGINT,
       ConnectDatabase cparams (get_progname argv0) (Some h),
       PQexec h (insert_sql payload),
       PQclear (Some res),
       PQfinish (Some h), Pg_free], Returns 0)"
  by (simp add: main_unfold get_opts_def get_opts_loop_unfold [of _ _ "(_, _)"]
        getopt.simps main_connected_def connectDatabase_def
        and_then_def main_switch_def execute_def)

lemma insert_null_result_is_failure:
  "main (w\<lparr>conn_handle := Some h, exec_result := (\<lambda>q. None)\<rparr>) mem
       [argv0, ''-a'', payload] =
     ([Pqsignal_SIGINT,
       ConnectDatabase cparams (get_progname argv0) (Some h),
       PQexec h (insert_sql payload),
       Log_error (''query failed: '' @ error_message w),
       Log_info (''query was: '' @ insert_sql payload),
       PQclear None,
       PQfinish (Some h)], Exits EXIT_FAILURE)"
  by (simp add: main_unfold get_opts_def get_opts_loop_unfold [of _ _ "(_, _)"]
        getopt.simps main_connected_def connectDatabase_def
        and_then_def main_switch_def execute_def)

text \<open>
  C2 says that an insert whose execution fails logs the error and the statement, closes
  the connection and exits with a non-zero status. When the server rejects the
  statement, \<open>PQexec\<close> returns a result whose status is \<open>PGRES_FATAL_ERROR\<close> (7), and
  \<open>execute\<close> never reads the status (\<open>fetch_table\<close> does): the run logs nothing and
  returns 0.
\<close>

theorem insert_error_status_ignored:
  "main (world (Some fatal_error)) garbage [''clientcomptage'', ''-a'', ''now(), nonsense''] =
     ([Pqsignal_SIGINT,
       ConnectDatabase cparams ''clientcomptage'' (Some 7),
       PQexec 7 ''INSERT INTO public.comptage (deb,fin) VALUES (now(), nonsense)'',
       PQclear (Some fatal_error),
       PQfinish (Some 7), Pg_free], Returns 0)"
  by (simp add: main_unfold get_opts_def get_opts_loop_unfold [of _ _ "(_, _)"]
        getopt.simps get_progname_def world_def main_connected_def connectDatabase_def
        and_then_def main_switch_def execute_def insert_sql_def
        CLIENTCOMPTAGE_DEFAULT_STRING_SIZE_def)

subsection \<open>C3: help and version\<close>

text \<open>
  C3 says that \<open>--help\<close>, \<open>-?\<close>, \<open>--version\<close> or \<open>-V\<close> anywhere in the argument list
  prints the informational text and exits with status 0. \<open>get_opts\<close> compares
  \<open>argv[1]\<close> only; after \<open>-j\<close>, the argument \<open>--help\<close> reaches \<open>getopt\<close>, which does
  not know the option \<open>-\<close>, and the run ends with the usage hint and \<open>EXIT_FAILURE\<close>.
\<close>

theorem help_after_flag_is_usage_error:
  "main (world (Some tuples_ok)) garbage [''clientcomptage'', ''-j'', ''--help''] =
     ([Pqsignal_SIGINT, Getopt_invalid_option (CHR ''-''),
       Log_error (usage_hint ''clientcomptage'')], Exits EXIT_FAILURE)"
  by (simp add: main_unfold get_opts_def get_opts_loop_unfold [of _ _ "(_, _)"]
        getopt.simps get_progname_def)

text \<open>
  C3 as amended: when the first argument after the program name is \<open>--help\<close> or \<open>-?\<close>,
  the program prints the help text and exits with status 0; when it is \<open>--version\<close> or
  \<open>-V\<close>, the program prints the version line and exits with status 0; in both cases
  whatever the other arguments are, and without a call of \<open>connectDatabase\<close>.
\<close>

theorem help_version_first_exit_0:
  "main w mem (argv0 # ''--help'' # rest) =
     ([Pqsignal_SIGINT, Stdout (help_text (get_progname argv0))], Exits 0) \<and>
   main w mem (argv0 # ''-?'' # rest) =
     ([Pqsignal_SIGINT, Stdout (help_text (get_progname argv0))], Exits 0) \<and>
   main w mem (argv0 # ''--version'' # rest) =
     ([Pqsignal_SIGINT, Stdout (version_line w)], Exits 0) \<and>
   main w mem (argv0 # ''-V'' # rest) =
     ([Pqsignal_SIGINT, Stdout (version_line w)], Exits 0)"
  by (simp add: main_unfold get_opts_def print_help_def and_then_def)

subsection \<open>C4: the flag \<open>-v\<close>\<close>

text \<open>
  C4 says that \<open>-v\<close> is accepted and does not end in a usage error. \<open>getopt\<close> accepts
  it, since \<open>v\<close> is in the option string, but the \<open>switch\<close> of \<open>get_opts\<close> has no case
  for it: it falls to \<open>default\<close>, and the run ends with the usage hint and
  \<open>EXIT_FAILURE\<close>, whatever follows \<open>-v\<close>.
\<close>

theorem verbose_flag_is_usage_error:
  "main w mem (argv0 # ''-v'' # rest) =
     ([Pqsignal_SIGINT, Log_error (usage_hint (get_progname argv0))], Exits EXIT_FAILURE)"
  by (simp add: main_unfold get_opts_def get_opts_loop_unfold [of _ _ "([], ''-v'' # rest)"]
        getopt.simps)

subsection \<open>C5: the long options\<close>

text \<open>
  C5 says that \<open>--jour\<close>, \<open>--mois\<close> and \<open>--semaines\<close> select the day, month and week
  reports. The program calls \<open>getopt\<close>, which has no long options: it reads the second
  \<open>-\<close> as an option character, finds it nowhere in the option string, and the run ends
  with the usage hint and \<open>EXIT_FAILURE\<close>.
\<close>

theorem long_options_are_usage_errors:
  "main w mem (argv0 # ''--jour'' # rest) =
     ([Pqsignal_SIGINT, Getopt_invalid_option (CHR ''-''),
       Log_error (usage_hint (get_progname argv0))], Exits EXIT_FAILURE) \<and>
   main w mem (argv0 # ''--mois'' # rest) =
     ([Pqsignal_SIGINT, Getopt_invalid_option (CHR ''-''),
       Log_error (usage_hint (get_progname argv0))], Exits EXIT_FAILURE) \<and>
   main w mem (argv0 # ''--semaines'' # rest) =
     ([Pqsignal_SIGINT, Getopt_invalid_option (CHR ''-''),
       Log_error (usage_hint (get_progname argv0))], Exits EXIT_FAILURE)"
  by (simp add: main_unfold get_opts_def get_opts_loop_unfold [of _ _ "([], _ # rest)"]
        getopt.simps)

subsection \<open>C6: unrecognised flags\<close>

text \<open>
  C6 says that every argument list that contains a flag other than the recognised ones
  ends with a diagnostic, a non-zero status and no connection. \<open>get_opts\<close> looks at
  \<open>argv[1]\<close> for help and version before it parses any option: after \<open>--help\<close> the
  unknown flag \<open>-x\<close>, which \<open>getopt\<close> would reject, is never read, and the program
  prints the help text and exits with status 0.
\<close>

theorem unrecognised_flag_after_help_exits_0:
  "Invalid (CHR ''x'') \<in> set (getopt_all False ''a:jmsv'' ([], [''--help'', ''-x''])) \<and>
   main (world None) garbage [''clientcomptage'', ''--help'', ''-x''] =
     ([Pqsignal_SIGINT, Stdout (help_text ''clientcomptage'')], Exits 0)"
  by (simp add: getopt_all_unfold [of _ _ "(_, _)"] getopt.simps main_unfold get_opts_def
        print_help_def and_then_def get_progname_def)

text \<open>
  C6 as amended: when the first argument is not one of \<open>--help\<close>, \<open>-?\<close>, \<open>--version\<close>
  and \<open>-V\<close>, and the argument list contains a flag other than the recognised ones, that
  is when \<open>getopt\<close>, scanning the arguments, meets an option character that is not in
  its option string, the program exits with \<open>EXIT_FAILURE\<close>, which is not zero; the
  last thing it writes is the diagnostic \<open>Try "progname --help" for more information.\<close>,
  which names the program; and it has not called \<open>connectDatabase\<close>.
\<close>

theorem unrecognised_flag_no_connection:
  assumes "Invalid c \<in> set (getopt_all (posix_order w) ''a:jmsv'' ([], a1 # rest))"
    and "a1 \<noteq> ''--help''" "a1 \<noteq> ''-?''" "a1 \<noteq> ''--version''" "a1 \<noteq> ''-V''"
  shows "snd (main w mem (argv0 # a1 # rest)) = Exits EXIT_FAILURE \<and>
         EXIT_FAILURE \<noteq> 0 \<and>
         last (fst (main w mem (argv0 # a1 # rest))) =
           Log_error (''Try '' @ [CHR 0x22] @ get_progname argv0 @ '' --help'' @
             [CHR 0x22] @ '' for more information.\<newline>'') \<and>
         list_all (\<lambda>e. \<not> is_connect e) (fst (main w mem (argv0 # a1 # rest)))"
proof -
  from assms(1)
  have "\<not> list_all is_action_opt (getopt_all (posix_order w) ''a:jmsv'' ([], a1 # rest))"
    by (auto simp: list_all_iff intro!: bexI [of _ "Invalid c"])
  with get_opts_loop_shape [of "posix_order w" "get_progname argv0" "([], a1 # rest)"
      "mem\<lparr>script := Null_ptr, verbose := False\<rparr>"]
  obtain t where "get_opts_loop (posix_order w) (get_progname argv0) ([], a1 # rest)
      (mem\<lparr>script := Null_ptr, verbose := False\<rparr>) =
        (t @ [Log_error (usage_hint (get_progname argv0))], Exits EXIT_FAILURE)"
    and "list_all (\<lambda>e. \<not> is_connect e) t"
    by blast
  with assms(2-5) show ?thesis
    by (simp add: main_unfold get_opts_not_first usage_hint_def EXIT_FAILURE_def)
qed

theorem unrecognised_flag_no_connection_witness:
  "Invalid (CHR ''x'') \<in>
     set (getopt_all (posix_order (world None)) ''a:jmsv'' ([], [''-j'', ''-x''])) \<and>
   snd (main (world None) garbage [''clientcomptage'', ''-j'', ''-x'']) = Exits EXIT_FAILURE \<and>
   EXIT_FAILURE \<noteq> 0 \<and>
   last (fst (main (world None) garbage [''clientcomptage'', ''-j'', ''-x''])) =
     Log_error (''Try '' @ [CHR 0x22] @ ''clientcomptage --help'' @ [CHR 0x22] @
       '' for more information.\<newline>'') \<and>
   list_all (\<lambda>e. \<not> is_connect e)
     (fst (main (world None) garbage [''clientcomptage'', ''-j'', ''-x'']))"
proof -
  have h: "Invalid (CHR ''x'') \<in>
     set (getopt_all (posix_order (world None)) ''a:jmsv'' ([], [''-j'', ''-x'']))"
    by (simp add: world_def getopt_all_unfold [of _ _ "(_, _)"] getopt.simps)
  from unrecognised_flag_no_connection
      [where ?argv0.0 = "''clientcomptage''" and mem = garbage, OF h] h
  show ?thesis by (simp add: get_progname_def)
qed

subsection \<open>C7: no action\<close>

text \<open>
  C7: when option parsing returns and the action is none of insert, day, month and
  week, the program, once connected, reports \<open>No action defined\<close> and then closes the
  connection before it returns.
\<close>

theorem no_action_defined_closes:
  assumes "get_opts w (argv0 # args) mem = (t, Returns opts)"
    and "action opts \<noteq> AJOUT" "action opts \<noteq> JOURS" "action opts \<noteq> MOIS"
      "action opts \<noteq> SEMAINES"
    and "conn_handle w = Some h"
  shows "main w mem (argv0 # args) =
           ([Pqsignal_SIGINT,
             ConnectDatabase cparams (get_progname argv0) (Some h),
             Log_error ''No action defined'',
             PQfinish (Some h), Pg_free], Returns 0)"
proof -
  from get_opts_returns [OF assms(1)] have "t = []" by simp
  with assms show ?thesis
    by (simp add: main_unfold main_connected_def connectDatabase_def and_then_def
          main_switch_def)
qed

theorem no_action_defined_closes_witness:
  "get_opts (world None) [''clientcomptage''] (garbage\<lparr>action := NONE\<rparr>) =
     ([], Returns (garbage\<lparr>script := Null_ptr, verbose := False, action := NONE\<rparr>)) \<and>
   main (world None) (garbage\<lparr>action := NONE\<rparr>) [''clientcomptage''] =
     ([Pqsignal_SIGINT,
       ConnectDatabase cparams (get_progname ''clientcomptage'') (Some 7),
       Log_error ''No action defined'',
       PQfinish (Some 7), Pg_free], Returns 0)"
proof -
  have g: "get_opts (world None) [''clientcomptage''] (garbage\<lparr>action := NONE\<rparr>) =
     ([], Returns (garbage\<lparr>script := Null_ptr, verbose := False, action := NONE\<rparr>))"
    by (simp add: get_opts_def get_opts_loop_unfold [of _ _ "(_, _)"] getopt.simps)
  have c: "conn_handle (world None) = Some 7" by (simp add: world_def)
  from no_action_defined_closes [OF g _ _ _ _ c] g enumerators_distinct
  show ?thesis by simp
qed

subsection \<open>C8: an interrupt after the connection\<close>

text \<open>A day report that succeeds, and an interrupt between the connection and the
  \<open>PQfinish\<close> of \<open>main\<close>: the handler closes the connection, once.\<close>

lemma day_report_run:
  "main (world (Some tuples_ok)) garbage [''clientcomptage'', ''-j''] =
     ([Pqsignal_SIGINT,
       ConnectDatabase cparams ''clientcomptage'' (Some 7),
       PQexec 7 ''SELECT * FROM public.jours_v'',
       PrintQuery (fetch_table_myopt ''Jours'') tuples_ok,
       PQclear (Some tuples_ok),
       PQfinish (Some 7),
       Pg_free], Returns 0)"
  by (simp add: main_unfold get_opts_def get_opts_loop_unfold [of _ _ "(_, _)"]
        getopt.simps get_progname_def world_def main_connected_def connectDatabase_def
        and_then_def main_switch_def fetch_table_def enumerators_distinct
        enumerators_distinct [symmetric] tuples_ok_def)

lemma sigint_before_close_finishes_once:
  "k \<in> {2, 3, 4, 5} \<Longrightarrow>
     count_list
       (fst (sigint_after k
          (main (world (Some tuples_ok)) garbage [''clientcomptage'', ''-j''])))
       (PQfinish (Some 7)) = 1 \<and>
     last (fst (sigint_after k
        (main (world (Some tuples_ok)) garbage [''clientcomptage'', ''-j'']))) =
       PQfinish (Some 7) \<and>
     snd (sigint_after k
        (main (world (Some tuples_ok)) garbage [''clientcomptage'', ''-j''])) =
       Exits EXIT_FAILURE"
  by (auto simp: day_report_run sigint_after_def quit_properly_def conn_after_def
        and_then_def)

text \<open>
  C8 says that \<open>SIGINT\<close> at any point after the connection is established closes the
  connection exactly once over the whole run. \<open>main\<close> does not clear \<open>conn\<close> after its own
  \<open>PQfinish\<close>: when the signal arrives after that call (here after the sixth event of a
  day report, before \<open>pg_free\<close>), \<open>quit_properly\<close> calls \<open>PQfinish\<close> on the same handle
  a second time.
\<close>

theorem sigint_after_close_finishes_twice:
  "sigint_after 6 (main (world (Some tuples_ok)) garbage [''clientcomptage'', ''-j'']) =
     ([Pqsignal_SIGINT,
       ConnectDatabase cparams ''clientcomptage'' (Some 7),
       PQexec 7 ''SELECT * FROM public.jours_v'',
       PrintQuery (fetch_table_myopt ''Jours'') tuples_ok,
       PQclear (Some tuples_ok),
       PQfinish (Some 7),
       PQfinish (Some 7)], Exits EXIT_FAILURE)"
  by (simp add: main_unfold get_opts_def get_opts_loop_unfold [of _ _ "(_, _)"]
        getopt.simps get_progname_def world_def main_connected_def connectDatabase_def
        and_then_def main_switch_def fetch_table_def enumerators_distinct
        enumerators_distinct [symmetric] sigint_after_def quit_properly_def conn_after_def
        tuples_ok_def)

subsection \<open>C9: script mode cannot be switched on\<close>

text \<open>
  C9: whenever option parsing returns, \<open>script\<close> is \<open>NULL\<close>. So the run writes nothing
  through the \<open>printf\<close> calls of the script branches; and every invocation that selects
  an action (one option at least was given, or the memory happens to hold an action),
  once connected, sends the statement of that action to the server with \<open>PQexec\<close>.
\<close>

theorem script_never_set:
  assumes "get_opts w (argv0 # args) mem = (t, Returns opts)"
  shows "script opts = Null_ptr \<and>
         list_all (\<lambda>e. \<not> is_stdout e) (fst (main w mem (argv0 # args))) \<and>
         (getopt_all (posix_order w) ''a:jmsv'' ([], args) \<noteq> [] \<longrightarrow> selected opts) \<and>
         (selected opts \<longrightarrow> conn_handle w = Some h \<longrightarrow>
            submitted h opts (fst (main w mem (argv0 # args))))"
proof -
  note r = get_opts_returns [OF assms]
  then have t: "t = []" and s: "script opts = Null_ptr" by simp_all
  have m: "fst (main w mem (argv0 # args)) =
      Pqsignal_SIGINT # fst (main_connected w (get_progname argv0) opts)"
    using assms t by (simp add: main_unfold)
  have a: "list_all (\<lambda>e. \<not> is_stdout e) (fst (main w mem (argv0 # args)))"
    using main_connected_no_stdout [OF s] by (simp add: m)
  have b: "getopt_all (posix_order w) ''a:jmsv'' ([], args) \<noteq> [] \<longrightarrow> selected opts"
    using r by auto
  have c: "selected opts \<longrightarrow> conn_handle w = Some h \<longrightarrow>
      submitted h opts (fst (main w mem (argv0 # args)))"
  proof (intro impI)
    assume sel: "selected opts" and conn: "conn_handle w = Some h"
    from main_connected_submits [OF s conn sel, of "get_progname argv0"]
    show "submitted h opts (fst (main w mem (argv0 # args)))"
      unfolding m by (auto simp: submitted_def split: char_ptr.splits)
  qed
  from s a b c show ?thesis by blast
qed

theorem script_never_set_witness:
  "get_opts (world (Some tuples_ok)) [''clientcomptage'', ''-m''] garbage =
     ([], Returns (garbage\<lparr>script := Null_ptr, verbose := False, action := MOIS\<rparr>)) \<and>
   script (garbage\<lparr>script := Null_ptr, verbose := False, action := MOIS\<rparr>) = Null_ptr \<and>
   selected (garbage\<lparr>script := Null_ptr, verbose := False, action := MOIS\<rparr>) \<and>
   submitted 7 (garbage\<lparr>script := Null_ptr, verbose := False, action := MOIS\<rparr>)
     (fst (main (world (Some tuples_ok)) garbage [''clientcomptage'', ''-m'']))"
proof -
  have g: "get_opts (world (Some tuples_ok)) [''clientcomptage'', ''-m''] garbage =
     ([], Returns (garbage\<lparr>script := Null_ptr, verbose := False, action := MOIS\<rparr>))"
    by (simp add: get_opts_def get_opts_loop_unfold [of _ _ "(_, _)"] getopt.simps)
  have sel: "selected (garbage\<lparr>script := Null_ptr, verbose := False, action := MOIS\<rparr>)"
    by (simp add: selected_def)
  have c: "conn_handle (world (Some tuples_ok)) = Some 7" by (simp add: world_def)
  from script_never_set [OF g, of 7] g sel c
  show ?thesis by simp
qed

subsection \<open>C10: no action flag\<close>

text \<open>
  C10: \<open>get_opts\<close> assigns \<open>script\<close> and \<open>verbose\<close> and, when \<open>getopt\<close> finds no option
  in the argument list, nothing else: \<open>action\<close> and \<open>heures\<close> reach the \<open>switch\<close> of
  \<open>main\<close> as the memory from \<open>pg_malloc\<close> holds them. What the program then does is
  decided by that memory: on the same arguments and in the same world it reports
  \<open>No action defined\<close>, or runs the day report, or reads through a pointer that points
  nowhere.
\<close>

theorem no_flag_action_uninitialised:
  assumes "next_word (posix_order w) args = None"
  shows "get_opts w (argv0 # args) mem =
           ([], Returns (mem\<lparr>script := Null_ptr, verbose := False\<rparr>)) \<and>
         main w mem (argv0 # args) =
           (Pqsignal_SIGINT #
              fst (main_connected w (get_progname argv0)
                     (mem\<lparr>script := Null_ptr, verbose := False\<rparr>)),
            snd (main_connected w (get_progname argv0)
                   (mem\<lparr>script := Null_ptr, verbose := False\<rparr>))) \<and>
         (conn_handle w = Some h \<longrightarrow>
            main w (mem\<lparr>action := NONE\<rparr>) (argv0 # args) =
              ([Pqsignal_SIGINT,
                ConnectDatabase cparams (get_progname argv0) (Some h),
                Log_error ''No action defined'',
                PQfinish (Some h), Pg_free], Returns 0) \<and>
            PQexec h ''SELECT * FROM public.jours_v'' \<in>
              set (fst (main w (mem\<lparr>action := JOURS\<rparr>) (argv0 # args))) \<and>
            main w (mem\<lparr>action := AJOUT, heures := Wild_ptr\<rparr>) (argv0 # args) =
              ([Pqsignal_SIGINT,
                ConnectDatabase cparams (get_progname argv0) (Some h)],
               Undefined_behaviour))"
proof -
  note g = get_opts_no_option [OF assms, of argv0]
  have m: "\<And>mem. main w mem (argv0 # args) =
           (Pqsignal_SIGINT #
              fst (main_connected w (get_progname argv0)
                     (mem\<lparr>script := Null_ptr, verbose := False\<rparr>)),
            snd (main_connected w (get_progname argv0)
                   (mem\<lparr>script := Null_ptr, verbose := False\<rparr>)))"
    by (simp add: main_unfold g)
  have none: "conn_handle w = Some h \<Longrightarrow>
      main w (mem\<lparr>action := NONE\<rparr>) (argv0 # args) =
              ([Pqsignal_SIGINT,
                ConnectDatabase cparams (get_progname argv0) (Some h),
                Log_error ''No action defined'',
                PQfinish (Some h), Pg_free], Returns 0)"
    using enumerators_distinct
    by (simp add: m main_connected_def connectDatabase_def and_then_def main_switch_def)
  have jours: "conn_handle w = Some h \<Longrightarrow>
      PQexec h ''SELECT * FROM public.jours_v'' \<in>
              set (fst (main w (mem\<lparr>action := JOURS\<rparr>) (argv0 # args)))"
    using main_connected_submits
        [of "mem\<lparr>action := JOURS, script := Null_ptr, verbose := False\<rparr>"
          w h "get_progname argv0"]
      enumerators_distinct enumerators_distinct [symmetric]
    by (simp add: m selected_def submitted_def)
  have ajout: "conn_handle w = Some h \<Longrightarrow>
      main w (mem\<lparr>action := AJOUT, heures := Wild_ptr\<rparr>) (argv0 # args) =
              ([Pqsignal_SIGINT,
                ConnectDatabase cparams (get_progname argv0) (Some h)],
               Undefined_behaviour)"
    by (simp add: m main_connected_def connectDatabase_def and_then_def main_switch_def)
  from g m [of mem] none jours ajout show ?thesis by blast
qed

theorem no_flag_action_uninitialised_witness:
  "next_word (posix_order (world None)) [''--'', ''-j''] = None \<and>
   get_opts (world None) [''clientcomptage'', ''--'', ''-j''] garbage =
     ([], Returns (garbage\<lparr>script := Null_ptr, verbose := False\<rparr>)) \<and>
   main (world None) (garbage\<lparr>action := NONE\<rparr>) [''clientcomptage'', ''--'', ''-j''] =
     ([Pqsignal_SIGINT,
       ConnectDatabase cparams (get_progname ''clientcomptage'') (Some 7),
       Log_error ''No action defined'',
       PQfinish (Some 7), Pg_free], Returns 0) \<and>
   main (world None) (garbage\<lparr>action := AJOUT, heures := Wild_ptr\<rparr>)
       [''clientcomptage'', ''--'', ''-j''] =
     ([Pqsignal_SIGINT,
        ConnectDatabase cparams (get_progname ''clientcomptage'') (Some 7)],
      Undefined_behaviour)"
proof -
  have n: "next_word (posix_order (world None)) [''--'', ''-j''] = None" by simp
  have c: "conn_handle (world None) = Some 7" by (simp add: world_def)
  from no_flag_action_uninitialised [OF n, of "''clientcomptage''" garbage 7] n c
  show ?thesis by simp
qed

end
